theory Spec2Isabelle
  imports Complex_Main "HOL-Library.Word"
begin

section \<open>Track loader (game/trackloader.cpp)\<close>

text \<open>
  \<open>TrackData\<close> and \<open>Track\<close> are declared outside the files at hand; the records keep the
  members that \<open>TrackLoader::loadTrack\<close> sets and \<open>TrackLoader::setLockedTracks\<close> reads and
  writes. The index is the \<open>unsigned int\<close> that \<open>loadTrack\<close> parses with \<open>toUInt\<close>.
\<close>

type_synonym uint = "32 word"

record TrackData =
  name :: string
  fileName :: string
  lapCount :: uint
  index :: uint
  isLocked :: bool

record Track =
  trackData :: TrackData

text \<open>
  \<open>m_tracks\<close> is a \<open>std::vector<Track *>\<close> whose elements are all created by
  \<open>new Track(trackData)\<close> in \<open>loadTracks\<close>: no element is null and no two alias, so the
  vector is a list of track values.
\<close>

record TrackLoader =
  m_paths :: "string list"
  m_tracks :: "Track list"

text \<open>A freshly loaded track, as \<open>loadTrack\<close> and \<open>new Track(trackData)\<close> leave it.\<close>

definition mkTrack :: "string \<Rightarrow> uint \<Rightarrow> Track" where
  "mkTrack n k =
     \<lparr>trackData = \<lparr>name = n, fileName = n, lapCount = 1, index = k, isLocked = False\<rparr>\<rparr>"

datatype error = OutOfRange

text \<open>\<open>unsigned int TrackLoader::tracks() const\<close>: the size of the vector, converted to
  \<open>unsigned int\<close>.\<close>

definition tracks :: "TrackLoader \<Rightarrow> uint" where
  "tracks ldr = word_of_nat (length (m_tracks ldr))"

text \<open>\<open>std::vector::at\<close> throws \<open>std::out_of_range\<close> outside the vector.\<close>

definition vector_at :: "'a list \<Rightarrow> nat \<Rightarrow> error + 'a" where
  "vector_at xs i = (if i < length xs then Inr (xs ! i) else Inl OutOfRange)"

text \<open>\<open>Track * TrackLoader::track(unsigned int index) const\<close>; \<open>None\<close> is \<open>nullptr\<close>.\<close>

definition track :: "TrackLoader \<Rightarrow> uint \<Rightarrow> error + Track option" where
  "track ldr idx =
     (if idx < tracks ldr then
        (case vector_at (m_tracks ldr) (unat idx) of
           Inl e \<Rightarrow> Inl e
         | Inr t \<Rightarrow> Inr (Some t))
      else Inr None)"

text \<open>
  One iteration of the loop of \<open>TrackLoader::setLockedTracks\<close>.
  \<open>Settings::instance().loadTrackUnlockStatus(*track)\<close> is defined outside the files at
  hand; it is the parameter \<open>loadTrackUnlockStatus\<close>.
\<close>

definition setLocked :: "(Track \<Rightarrow> bool) \<Rightarrow> Track \<Rightarrow> Track" where
  "setLocked loadTrackUnlockStatus t =
     (if \<not> loadTrackUnlockStatus t \<and> index (trackData t) > 0
      then t\<lparr>trackData := (trackData t)\<lparr>isLocked := True\<rparr>\<rparr>
      else t\<lparr>trackData := (trackData t)\<lparr>isLocked := False\<rparr>\<rparr>)"

primrec setLockedLoop :: "(Track \<Rightarrow> bool) \<Rightarrow> Track list \<Rightarrow> Track list" where
  "setLockedLoop loadTrackUnlockStatus [] = []"
| "setLockedLoop loadTrackUnlockStatus (t # ts) =
     setLocked loadTrackUnlockStatus t # setLockedLoop loadTrackUnlockStatus ts"

definition setLockedTracks :: "(Track \<Rightarrow> bool) \<Rightarrow> TrackLoader \<Rightarrow> TrackLoader" where
  "setLockedTracks loadTrackUnlockStatus ldr =
     ldr\<lparr>m_tracks := setLockedLoop loadTrackUnlockStatus (m_tracks ldr)\<rparr>"


section \<open>Off-track detector (game/offtrackdetector.cpp)\<close>

text \<open>
  The enumerators of \<open>TrackTile::TileType\<close>: \<open>isOffTrack\<close> names four of them, and
  \<open>TrackLoader::tileTypeEnumFromString\<close> lists them all (\<open>TT_CORNER_90\<close> and so on,
  \<open>TT_NONE\<close> being \<open>NoTile\<close>).
\<close>

datatype TileType =
  Corner90 | Corner45Left | Corner45Right | Straight | Straight45Male | Straight45Female
  | Grass | Sand | SandGrassStraight | SandGrassStraight45Female | SandGrassCorner
  | SandGrassCorner2 | Finish | NoTile

text \<open>
  The source's \<open>float\<close> coordinates are read as real numbers; the integer rotation is an
  \<open>int\<close>. \<open>hasAsphalt\<close> stands for what \<open>TrackTile::hasAsphalt()\<close> returns. The two
  limits of the detector are the integers its constructor computes from
  \<open>TrackTile::width()\<close> and \<open>TrackTile::height()\<close>.
\<close>

type_synonym MCVector2dF = "real \<times> real"

text \<open>The accessors \<open>MCVector2dF::i()\<close> and \<open>MCVector2dF::j()\<close>.\<close>

definition vec_i :: "MCVector2dF \<Rightarrow> real" where "vec_i v = fst v"
definition vec_j :: "MCVector2dF \<Rightarrow> real" where "vec_j v = snd v"

record TrackTile =
  hasAsphalt :: bool
  tileTypeEnum :: TileType
  rotation :: int
  location :: "real \<times> real"

record OffTrackDetector =
  m_tileWLimit :: int
  m_tileHLimit :: int

text \<open>The remainder of C++ integer division, which truncates towards zero.\<close>

definition crem :: "int \<Rightarrow> int \<Rightarrow> int" where
  "crem a b = sgn a * (\<bar>a\<bar> mod \<bar>b\<bar>)"

text \<open>
  \<open>bool OffTrackDetector::isOffTrack(MCVector2dF tire, const TrackTile & tile) const\<close>.
  \<open>MCMathUtil::rotatedVector\<close> is defined outside the files at hand; it is the parameter
  \<open>rotatedVector\<close>.
\<close>

definition isOffTrack ::
  "(MCVector2dF \<Rightarrow> int \<Rightarrow> MCVector2dF) \<Rightarrow> OffTrackDetector \<Rightarrow> MCVector2dF \<Rightarrow> TrackTile \<Rightarrow> bool"
where
  "isOffTrack rotatedVector d tire tile =
    (if \<not> hasAsphalt tile then True
     else if tileTypeEnum tile = Straight \<or> tileTypeEnum tile = Finish then
       (if crem (rotation tile + 90) 180 = 0 then
          (let y = vec_j tire in
           if y > snd (location tile) + of_int (m_tileHLimit d)
              \<or> y < snd (location tile) - of_int (m_tileHLimit d)
           then True else False)
        else if crem (rotation tile) 180 = 0 then
          (let x = vec_i tire in
           if x > fst (location tile) + of_int (m_tileWLimit d)
              \<or> x < fst (location tile) - of_int (m_tileWLimit d)
           then True else False)
        else False)
     else if tileTypeEnum tile = Straight45Male then
       (let diff = (vec_i tire - fst (location tile), vec_j tire - snd (location tile));
            rotatedDiff = rotatedVector diff (rotation tile - 45)
        in if vec_j rotatedDiff > of_int (m_tileHLimit d) \<or> vec_j rotatedDiff < - of_int (m_tileHLimit d)
           then True else False)
     else if tileTypeEnum tile = Straight45Female then
       (let diff = (vec_i tire - fst (location tile), vec_j tire - snd (location tile));
            rotatedDiff = rotatedVector diff (360 - rotation tile - 45)
        in if vec_j rotatedDiff < of_int (m_tileHLimit d) then True else False)
     else False)"


section \<open>Contact resolver and solver (MiniCore physics)\<close>

text \<open>
  Of the contact resolver only the declaration of \<open>MCContactResolverImpl\<close> is at hand:
  three pair tests returning \<open>bool\<close> and taking their shapes by reference. The bodies
  of the pair tests, the dispatching \<open>MCContactResolver\<close> and the solver are not; they
  are modelled from the design document, over real numbers in place of \<open>float\<close>.
\<close>

subsection \<open>Vectors\<close>

text \<open>Modelled from the spec: the sum of two 2D vectors (operators of \<open>MCVector2dF\<close>
  are missing).\<close>

definition vadd :: "MCVector2dF \<Rightarrow> MCVector2dF \<Rightarrow> MCVector2dF" where
  "vadd a b = (fst a + fst b, snd a + snd b)"

text \<open>Modelled from the spec: the difference of two 2D vectors (missing operator).\<close>

definition vsub :: "MCVector2dF \<Rightarrow> MCVector2dF \<Rightarrow> MCVector2dF" where
  "vsub a b = (fst a - fst b, snd a - snd b)"

text \<open>Modelled from the spec: a 2D vector scaled by a number (missing operator).\<close>

definition vscale :: "real \<Rightarrow> MCVector2dF \<Rightarrow> MCVector2dF" where
  "vscale k v = (k * fst v, k * snd v)"

text \<open>Modelled from the spec: the negation of a 2D vector (missing operator).\<close>

definition vneg :: "MCVector2dF \<Rightarrow> MCVector2dF" where
  "vneg v = (- fst v, - snd v)"

text \<open>Modelled from the spec: the dot product, which projects onto an axis (missing
  operator).\<close>

definition dot :: "MCVector2dF \<Rightarrow> MCVector2dF \<Rightarrow> real" where
  "dot a b = fst a * fst b + snd a * snd b"

text \<open>Modelled from the spec: a vector rotated by an angle in radians, the rotation of
  a shape (missing operator).\<close>

definition rotated :: "real \<Rightarrow> MCVector2dF \<Rightarrow> MCVector2dF" where
  "rotated t v = (cos t * fst v - sin t * snd v, sin t * fst v + cos t * snd v)"

subsection \<open>Data model\<close>

text \<open>Modelled from the spec: the Body of section 3 (class missing): mass, velocity,
  angular velocity, restitution and friction coefficients, a position, and the static
  flag that stands for infinite mass.\<close>

record Body =
  mass :: real
  isStatic :: bool
  position :: MCVector2dF
  velocity :: MCVector2dF
  angularVelocity :: real
  restitution :: real
  friction :: real

text \<open>Modelled from the spec: the attributes every Shape of section 3 has (class
  missing): center position, rotation in radians, and the non-owning reference to its
  body, an index into the store of bodies.\<close>

record Shape =
  center :: MCVector2dF
  rotationRad :: real
  parent :: nat

text \<open>Modelled from the spec: the circle variant of Shape, with its radius (class
  \<open>MCCircleShape\<close> missing).\<close>

record MCCircleShape = Shape +
  radius :: real

text \<open>Modelled from the spec: the rectangle variant of Shape, with its half-extents
  (class \<open>MCRectShape\<close> missing).\<close>

record MCRectShape = Shape +
  halfWidth :: real
  halfHeight :: real

text \<open>Modelled from the spec: Shape as a closed variant over its two kinds (section 9;
  the class hierarchy is missing).\<close>

datatype AnyShape = CircleShape MCCircleShape | RectShape MCRectShape

text \<open>Modelled from the spec: the Contact of section 3 (class missing): the two shapes,
  the contact point, the normal, which points from \<open>object1\<close> toward \<open>object2\<close>, and
  the penetration depth.\<close>

record Contact =
  object1 :: AnyShape
  object2 :: AnyShape
  point :: MCVector2dF
  normal :: MCVector2dF
  depth :: real

text \<open>Modelled from the spec: what a pair test of \<open>MCContactResolverImpl\<close> leaves
  behind (bodies of the tests missing). The declared result is the \<open>bool\<close>; the contact
  is what the test reports to the resolver; the two shapes are passed by reference, so
  they are returned as the call leaves them.\<close>

record ('a, 'b) PairResult =
  collided :: bool
  reported :: "Contact option"
  shape1 :: 'a
  shape2 :: 'b

text \<open>Modelled from the spec: the outcome "returns false, no contact, no side effect" of
  a pair test (bodies of the tests missing).\<close>

definition noContact :: "'a \<Rightarrow> 'b \<Rightarrow> ('a, 'b) PairResult" where
  "noContact a b = \<lparr>collided = False, reported = None, shape1 = a, shape2 = b\<rparr>"

text \<open>Modelled from the spec: the outcome of a pair test that found a contact (bodies of
  the tests missing); the shapes are not mutated during the narrow phase.\<close>

definition contact :: "'a \<Rightarrow> 'b \<Rightarrow> Contact \<Rightarrow> ('a, 'b) PairResult" where
  "contact a b c = \<lparr>collided = True, reported = Some c, shape1 = a, shape2 = b\<rparr>"

subsection \<open>Rectangle against rectangle\<close>

text \<open>Modelled from the spec: the first local axis of a rectangle, accounting for its
  rotation (helper of the missing \<open>processRectRect\<close>).\<close>

definition axisX :: "MCRectShape \<Rightarrow> MCVector2dF" where
  "axisX a = rotated (rotationRad a) (1, 0)"

text \<open>Modelled from the spec: the second local axis of a rectangle, accounting for its
  rotation (helper of the missing \<open>processRectRect\<close>).\<close>

definition axisY :: "MCRectShape \<Rightarrow> MCVector2dF" where
  "axisY a = rotated (rotationRad a) (0, 1)"

text \<open>Modelled from the spec: half the length of the projection of a rectangle onto an
  axis (helper of the missing \<open>processRectRect\<close>).\<close>

definition projectedRadius :: "MCRectShape \<Rightarrow> MCVector2dF \<Rightarrow> real" where
  "projectedRadius a n = halfWidth a * \<bar>dot (axisX a) n\<bar> + halfHeight a * \<bar>dot (axisY a) n\<bar>"

text \<open>Modelled from the spec: by how much the projections of two rectangles onto an axis
  overlap; the axis separates them when this is not positive (helper of the missing
  \<open>processRectRect\<close>).\<close>

definition axisOverlap :: "MCRectShape \<Rightarrow> MCRectShape \<Rightarrow> MCVector2dF \<Rightarrow> real" where
  "axisOverlap a b n =
     projectedRadius a n + projectedRadius b n - \<bar>dot (vsub (center b) (center a)) n\<bar>"

text \<open>Modelled from the spec: the four axes of the separating-axis test, each
  rectangle's two local axes (helper of the missing \<open>processRectRect\<close>).\<close>

definition satAxes :: "MCRectShape \<Rightarrow> MCRectShape \<Rightarrow> MCVector2dF list" where
  "satAxes a b = [axisX a, axisY a, axisX b, axisY b]"

text \<open>Modelled from the spec: the scan for the axis of minimum overlap; an axis replaces
  the best one so far only when its overlap is strictly smaller (helper of the missing
  \<open>processRectRect\<close>).\<close>

primrec minOverlapFrom ::
  "MCVector2dF \<times> real \<Rightarrow> (MCVector2dF \<times> real) list \<Rightarrow> MCVector2dF \<times> real" where
  "minOverlapFrom best [] = best"
| "minOverlapFrom best (x # xs) = minOverlapFrom (if snd x < snd best then x else best) xs"

text \<open>Modelled from the spec: the minimum-translation axis and its depth, among the
  axes tested (helper of the missing \<open>processRectRect\<close>).\<close>

definition minOverlap :: "(MCVector2dF \<times> real) list \<Rightarrow> MCVector2dF \<times> real" where
  "minOverlap xs = minOverlapFrom (hd xs) (tl xs)"

text \<open>Modelled from the spec: \<open>processRectRect\<close> (body missing), section 4.2: a
  separating-axis test against the two local axes of each rectangle. The test returns
  false if any axis separates. When all four projections overlap, the axis of minimum
  overlap is the minimum-translation axis, its overlap is the depth, and the normal is
  that axis directed from the first rectangle to the second (the axis itself when the
  center offset has no component along it). The spec leaves the placement of the
  contact point open (overlap centroid or clipped vertex); it is the parameter
  \<open>contactPoint\<close>.\<close>

definition processRectRect ::
  "(MCRectShape \<Rightarrow> MCRectShape \<Rightarrow> MCVector2dF)
     \<Rightarrow> MCRectShape \<Rightarrow> MCRectShape \<Rightarrow> (MCRectShape, MCRectShape) PairResult" where
  "processRectRect contactPoint a b =
     (let overlaps = map (\<lambda>n. (n, axisOverlap a b n)) (satAxes a b)
      in if list_ex (\<lambda>x. snd x \<le> 0) overlaps then noContact a b
         else
           (let best = minOverlap overlaps;
                n = fst best;
                d = vsub (center b) (center a)
            in contact a b
                 \<lparr>object1 = RectShape a, object2 = RectShape b,
                  point = contactPoint a b,
                  normal = (if dot d n < 0 then vneg n else n),
                  depth = snd best\<rparr>))"

text \<open>Modelled from the spec: an axis-aligned bounding box (section 4.1, class
  missing).\<close>

record AABB =
  minX :: real
  maxX :: real
  minY :: real
  maxY :: real

text \<open>Modelled from the spec: the axis-aligned bounding box of a rectangle shape
  (section 4.1, method missing).\<close>

definition boundingBox :: "MCRectShape \<Rightarrow> AABB" where
  "boundingBox a =
     (let ex = halfWidth a * \<bar>cos (rotationRad a)\<bar> + halfHeight a * \<bar>sin (rotationRad a)\<bar>;
          ey = halfWidth a * \<bar>sin (rotationRad a)\<bar> + halfHeight a * \<bar>cos (rotationRad a)\<bar>
      in \<lparr>minX = fst (center a) - ex, maxX = fst (center a) + ex,
          minY = snd (center a) - ey, maxY = snd (center a) + ey\<rparr>)"

text \<open>Modelled from the spec: the simple overlap test of two bounding boxes (section 8,
  test missing). Boxes that only touch do not overlap, as circles at a distance equal
  to the sum of their radii do not.\<close>

definition aabbOverlap :: "AABB \<Rightarrow> AABB \<Rightarrow> bool" where
  "aabbOverlap p q =
     (minX p < maxX q \<and> minX q < maxX p \<and> minY p < maxY q \<and> minY q < maxY p)"

subsection \<open>Solver\<close>

text \<open>Modelled from the spec: the choices section 4.4 leaves to the implementation (the
  solver is missing): the fixed rule combining the two restitution coefficients, the
  fixed number of iterations, the factor of the positional correction and its bound.\<close>

record SolverConfig =
  combineRestitution :: "real \<Rightarrow> real \<Rightarrow> real"
  iterations :: nat
  correctionFactor :: real
  maxCorrection :: real

text \<open>Modelled from the spec: the inverse mass that weights an impulse; a body with the
  static flag has infinite mass, so its inverse mass is zero (solver missing).\<close>

definition inverseMass :: "Body \<Rightarrow> real" where
  "inverseMass b = (if isStatic b then 0 else 1 / mass b)"

text \<open>Modelled from the spec: the body a shape belongs to (back-reference of the missing
  Shape class).\<close>

fun bodyOf :: "AnyShape \<Rightarrow> nat" where
  "bodyOf (CircleShape s) = parent s"
| "bodyOf (RectShape s) = parent s"

text \<open>Modelled from the spec: steps 1 to 5 of section 4.4 for one contact (solver
  missing). The relative velocity along the normal is computed; a separating contact is
  skipped. Otherwise the impulse magnitude follows from the inverse masses, the combined
  restitution and the relative normal velocity, and is applied to both velocities in
  opposite directions along the normal, weighted by inverse mass. The positional
  correction is proportional to the depth, bounded by the maximum, and shared by inverse
  mass as well. Bodies live in a store indexed by the body references of the shapes.\<close>

definition resolveContact ::
  "SolverConfig \<Rightarrow> Contact \<Rightarrow> (nat \<Rightarrow> Body) \<Rightarrow> (nat \<Rightarrow> Body)" where
  "resolveContact cfg c bodies =
     (let i1 = bodyOf (object1 c);
          i2 = bodyOf (object2 c);
          n = normal c;
          vn = dot (vsub (velocity (bodies i2)) (velocity (bodies i1))) n
      in if vn \<ge> 0 then bodies
         else
           (let w1 = inverseMass (bodies i1);
                w2 = inverseMass (bodies i2);
                e = combineRestitution cfg (restitution (bodies i1)) (restitution (bodies i2));
                impulse = - (1 + e) * vn / (w1 + w2);
                corr = min (maxCorrection cfg) (correctionFactor cfg * depth c) / (w1 + w2);
                bodies1 = bodies(i1 := (bodies i1)
                  \<lparr>position := vsub (position (bodies i1)) (vscale (corr * w1) n),
                   velocity := vsub (velocity (bodies i1)) (vscale (impulse * w1) n)\<rparr>)
            in bodies1(i2 := (bodies1 i2)
                  \<lparr>position := vadd (position (bodies1 i2)) (vscale (corr * w2) n),
                   velocity := vadd (velocity (bodies1 i2)) (vscale (impulse * w2) n)\<rparr>)))"

text \<open>Modelled from the spec: one pass of the solver over the contacts of the tick, in
  list order (solver missing).\<close>

primrec solvePass ::
  "SolverConfig \<Rightarrow> Contact list \<Rightarrow> (nat \<Rightarrow> Body) \<Rightarrow> (nat \<Rightarrow> Body)" where
  "solvePass cfg [] bodies = bodies"
| "solvePass cfg (c # cs) bodies = solvePass cfg cs (resolveContact cfg c bodies)"

text \<open>Modelled from the spec: step 6 of section 4.4, the pass repeated a given number
  of times (solver missing).\<close>

primrec iterate ::
  "nat \<Rightarrow> SolverConfig \<Rightarrow> Contact list \<Rightarrow> (nat \<Rightarrow> Body) \<Rightarrow> (nat \<Rightarrow> Body)" where
  "iterate 0 cfg cs bodies = bodies"
| "iterate (Suc k) cfg cs bodies = iterate k cfg cs (solvePass cfg cs bodies)"

text \<open>Modelled from the spec: the solver of section 4.4 (missing), a function from the
  contacts and the bodies of a tick to the updated bodies.\<close>

definition solve :: "SolverConfig \<Rightarrow> Contact list \<Rightarrow> (nat \<Rightarrow> Body) \<Rightarrow> (nat \<Rightarrow> Body)" where
  "solve cfg cs bodies = iterate (iterations cfg) cfg cs bodies"


subsection \<open>A scenario\<close>

text \<open>Modelled from the spec: the bodies of the end-to-end scenario of section 8 (its
  code is missing), a body of mass 2 with restitution one half at a given position with
  a given velocity.\<close>

definition restingBody :: "bool \<Rightarrow> MCVector2dF \<Rightarrow> MCVector2dF \<Rightarrow> Body" where
  "restingBody static p v =
     \<lparr>mass = 2, isStatic = static, position = p, velocity = v, angularVelocity = 0,
      restitution = 1 / 2, friction = 0\<rparr>"

text \<open>Modelled from the spec: the circles of radius 1 of the end-to-end scenario of
  section 8 (its code is missing), owned by a given body.\<close>

definition unitCircle :: "nat \<Rightarrow> MCVector2dF \<Rightarrow> AnyShape" where
  "unitCircle k p = CircleShape \<lparr>center = p, rotationRad = 0, parent = k, radius = 1\<rparr>"


section \<open>Properties of the track loader\<close>

lemma tracks_le_length: "unat (tracks ldr) \<le> length (m_tracks ldr)"
  unfolding tracks_def by (simp add: unat_of_nat)

lemma tracks_eq_length:
  "length (m_tracks ldr) < 2 ^ 32 \<Longrightarrow> unat (tracks ldr) = length (m_tracks ldr)"
  unfolding tracks_def by (simp add: unat_of_nat)

text \<open>
  Claim C8. The number of loaded tracks is what \<open>tracks()\<close> reports, which is the size
  of the vector whenever that size fits an \<open>unsigned int\<close> (\<open>tracks_eq_length\<close>). For
  every index at or above it, \<open>track(index)\<close> returns \<open>nullptr\<close>; for every index
  strictly below it, the index is inside the vector (\<open>at\<close> does not throw) and
  \<open>track(index)\<close> returns the track stored at that position. An index at or above the
  size of the vector yields \<open>nullptr\<close> as well.
\<close>

theorem track_index_bounds:
  "(tracks ldr \<le> idx \<longrightarrow> track ldr idx = Inr None)
   \<and> (length (m_tracks ldr) \<le> unat idx \<longrightarrow> track ldr idx = Inr None)
   \<and> (idx < tracks ldr \<longrightarrow>
        unat idx < length (m_tracks ldr) \<and> track ldr idx = Inr (Some (m_tracks ldr ! unat idx)))"
proof (intro conjI impI)
  assume "tracks ldr \<le> idx"
  then show "track ldr idx = Inr None"
    by (simp add: track_def not_less [symmetric])
next
  assume "length (m_tracks ldr) \<le> unat idx"
  with tracks_le_length [of ldr] have "unat (tracks ldr) \<le> unat idx"
    by (rule order_trans)
  then have "\<not> idx < tracks ldr"
    by (simp add: word_less_nat_alt)
  then show "track ldr idx = Inr None"
    by (simp add: track_def)
next
  assume lt: "idx < tracks ldr"
  then have "unat idx < unat (tracks ldr)"
    by (simp add: word_less_nat_alt)
  with tracks_le_length [of ldr] show in_range: "unat idx < length (m_tracks ldr)"
    by simp
  with lt show "track ldr idx = Inr (Some (m_tracks ldr ! unat idx))"
    by (simp add: track_def vector_at_def)
qed


text \<open>A loader with two tracks: index 1 is served, index 5 is not.\<close>

theorem track_index_bounds_witness:
  "tracks \<lparr>m_paths = [], m_tracks = [mkTrack ''a'' 0, mkTrack ''b'' 1]\<rparr> \<le> 5
   \<and> length (m_tracks \<lparr>m_paths = [], m_tracks = [mkTrack ''a'' 0, mkTrack ''b'' 1]\<rparr>) \<le> unat (5 :: uint)
   \<and> track \<lparr>m_paths = [], m_tracks = [mkTrack ''a'' 0, mkTrack ''b'' 1]\<rparr> 5 = Inr None
   \<and> 1 < tracks \<lparr>m_paths = [], m_tracks = [mkTrack ''a'' 0, mkTrack ''b'' 1]\<rparr>
   \<and> track \<lparr>m_paths = [], m_tracks = [mkTrack ''a'' 0, mkTrack ''b'' 1]\<rparr> 1
       = Inr (Some (mkTrack ''b'' 1))"
  using track_index_bounds [of "\<lparr>m_paths = [], m_tracks = [mkTrack ''a'' 0, mkTrack ''b'' 1]\<rparr>" 5]
    track_index_bounds [of "\<lparr>m_paths = [], m_tracks = [mkTrack ''a'' 0, mkTrack ''b'' 1]\<rparr>" 1]
  by (simp add: tracks_def)

lemma setLockedLoop_map: "setLockedLoop st ts = map (setLocked st) ts"
  by (induction ts) simp_all

lemma setLocked_index: "index (trackData (setLocked st t)) = index (trackData t)"
  by (simp add: setLocked_def)

lemma setLocked_isLocked:
  "isLocked (trackData (setLocked st t)) = (\<not> st t \<and> index (trackData t) \<noteq> 0)"
  by (simp add: setLocked_def word_greater_zero_iff)

lemma setLockedTracks_length:
  "length (m_tracks (setLockedTracks st ldr)) = length (m_tracks ldr)"
  by (simp add: setLockedTracks_def setLockedLoop_map)

text \<open>
  Claim C9. After \<open>setLockedTracks\<close> has run, the vector holds the same tracks in the same
  positions with their indices unchanged; a track whose track-data index is 0 is not
  locked, and every other track is locked exactly when \<open>loadTrackUnlockStatus\<close> returned
  false for it (the stored unlock status is absent or false).
\<close>

theorem setLockedTracks_locked:
  assumes "k < length (m_tracks ldr)"
  shows "k < length (m_tracks (setLockedTracks st ldr))
    \<and> index (trackData (m_tracks (setLockedTracks st ldr) ! k)) = index (trackData (m_tracks ldr ! k))
    \<and> (index (trackData (m_tracks ldr ! k)) = 0 \<longrightarrow>
          \<not> isLocked (trackData (m_tracks (setLockedTracks st ldr) ! k)))
    \<and> (index (trackData (m_tracks ldr ! k)) \<noteq> 0 \<longrightarrow>
          isLocked (trackData (m_tracks (setLockedTracks st ldr) ! k)) = (\<not> st (m_tracks ldr ! k)))"
proof -
  have nth: "m_tracks (setLockedTracks st ldr) ! k = setLocked st (m_tracks ldr ! k)"
    using assms by (simp add: setLockedTracks_def setLockedLoop_map)
  show ?thesis
    using assms by (simp add: nth setLockedTracks_length setLocked_index setLocked_isLocked)
qed

text \<open>
  Three tracks: the first has index 0 and no stored status, the second has index 3 and
  no stored status, the third has index 2 and is stored as unlocked.
\<close>

theorem setLockedTracks_locked_witness:
  "\<not> isLocked (trackData (m_tracks (setLockedTracks (\<lambda>t. index (trackData t) = 2)
        \<lparr>m_paths = [], m_tracks = [mkTrack ''a'' 0, mkTrack ''b'' 3, mkTrack ''c'' 2]\<rparr>) ! 0))
   \<and> isLocked (trackData (m_tracks (setLockedTracks (\<lambda>t. index (trackData t) = 2)
        \<lparr>m_paths = [], m_tracks = [mkTrack ''a'' 0, mkTrack ''b'' 3, mkTrack ''c'' 2]\<rparr>) ! 1))
   \<and> \<not> isLocked (trackData (m_tracks (setLockedTracks (\<lambda>t. index (trackData t) = 2)
        \<lparr>m_paths = [], m_tracks = [mkTrack ''a'' 0, mkTrack ''b'' 3, mkTrack ''c'' 2]\<rparr>) ! 2))"
  using setLockedTracks_locked [of 0
      "\<lparr>m_paths = [], m_tracks = [mkTrack ''a'' 0, mkTrack ''b'' 3, mkTrack ''c'' 2]\<rparr>"
      "\<lambda>t. index (trackData t) = 2"]
    setLockedTracks_locked [of 1
      "\<lparr>m_paths = [], m_tracks = [mkTrack ''a'' 0, mkTrack ''b'' 3, mkTrack ''c'' 2]\<rparr>"
      "\<lambda>t. index (trackData t) = 2"]
    setLockedTracks_locked [of 2
      "\<lparr>m_paths = [], m_tracks = [mkTrack ''a'' 0, mkTrack ''b'' 3, mkTrack ''c'' 2]\<rparr>"
      "\<lambda>t. index (trackData t) = 2"]
  by (simp add: mkTrack_def)


section \<open>Properties of the off-track detector\<close>

text \<open>
  Claim C10. On a tile without asphalt \<open>isOffTrack\<close> returns true for every tire
  position, so its result there does not depend on the tire's coordinates: the limit
  checks are reached only on tiles that have asphalt.
\<close>

theorem isOffTrack_no_asphalt:
  assumes "\<not> hasAsphalt tile"
  shows "isOffTrack rotatedVector d tire tile
    \<and> isOffTrack rotatedVector d tire' tile = isOffTrack rotatedVector d tire tile"
  using assms by (simp add: isOffTrack_def)

theorem isOffTrack_no_asphalt_witness:
  "\<not> hasAsphalt \<lparr>hasAsphalt = False, tileTypeEnum = Grass, rotation = 90, location = (128, 128)\<rparr>
   \<and> isOffTrack (\<lambda>v a. v) \<lparr>m_tileWLimit = 103, m_tileHLimit = 103\<rparr> (130, 131)
        \<lparr>hasAsphalt = False, tileTypeEnum = Grass, rotation = 90, location = (128, 128)\<rparr>"
  using isOffTrack_no_asphalt [of
      "\<lparr>hasAsphalt = False, tileTypeEnum = Grass, rotation = 90, location = (128, 128)\<rparr>"
      "\<lambda>v a. v" "\<lparr>m_tileWLimit = 103, m_tileHLimit = 103\<rparr>" "(130, 131)" "(0, 0)"]
  by simp


section \<open>Properties of the rectangle pair test\<close>

lemma axisX_unrotated: "rotationRad a = 0 \<Longrightarrow> axisX a = (1, 0)"
  by (simp add: axisX_def rotated_def)

lemma axisY_unrotated: "rotationRad a = 0 \<Longrightarrow> axisY a = (0, 1)"
  by (simp add: axisY_def rotated_def)

lemma collided_processRectRect:
  "collided (processRectRect cp a b)
     \<longleftrightarrow> \<not> list_ex (\<lambda>x. snd x \<le> 0) (map (\<lambda>n. (n, axisOverlap a b n)) (satAxes a b))"
  by (simp add: processRectRect_def noContact_def contact_def Let_def)

lemma overlap_unrotated_x:
  assumes "rotationRad a = 0" and "rotationRad b = 0"
  shows "axisOverlap a b (1, 0)
    = halfWidth a + halfWidth b - \<bar>fst (center b) - fst (center a)\<bar>"
  using assms
  by (simp add: axisOverlap_def projectedRadius_def axisX_unrotated axisY_unrotated dot_def vsub_def)

lemma overlap_unrotated_y:
  assumes "rotationRad a = 0" and "rotationRad b = 0"
  shows "axisOverlap a b (0, 1)
    = halfHeight a + halfHeight b - \<bar>snd (center b) - snd (center a)\<bar>"
  using assms
  by (simp add: axisOverlap_def projectedRadius_def axisX_unrotated axisY_unrotated dot_def vsub_def)

lemma aabbOverlap_unrotated:
  assumes "rotationRad a = 0" and "rotationRad b = 0"
  shows "aabbOverlap (boundingBox a) (boundingBox b)
    \<longleftrightarrow> \<bar>fst (center b) - fst (center a)\<bar> < halfWidth a + halfWidth b
       \<and> \<bar>snd (center b) - snd (center a)\<bar> < halfHeight a + halfHeight b"
  using assms by (simp add: aabbOverlap_def boundingBox_def Let_def abs_less_iff) argo

lemma reported_processRectRect:
  "(reported (processRectRect cp a b) \<noteq> None) = collided (processRectRect cp a b)"
  by (simp add: processRectRect_def noContact_def contact_def Let_def)

text \<open>
  Claim C3. For two rectangles of rotation zero, \<open>processRectRect\<close> returns true, and
  reports a contact, if and only if the bounding boxes of the two rectangles overlap.
\<close>

theorem processRectRect_axis_aligned:
  assumes "rotationRad a = 0" and "rotationRad b = 0"
  shows "collided (processRectRect contactPoint a b) = aabbOverlap (boundingBox a) (boundingBox b)
       \<and> (reported (processRectRect contactPoint a b) \<noteq> None)
           = aabbOverlap (boundingBox a) (boundingBox b)"
proof -
  have "collided (processRectRect contactPoint a b)
      \<longleftrightarrow> 0 < axisOverlap a b (1, 0) \<and> 0 < axisOverlap a b (0, 1)"
    using assms
    by (auto simp add: collided_processRectRect satAxes_def axisX_unrotated axisY_unrotated not_le)
  also have "\<dots> \<longleftrightarrow> aabbOverlap (boundingBox a) (boundingBox b)"
    using assms
    by (simp add: overlap_unrotated_x overlap_unrotated_y aabbOverlap_unrotated)
  finally show ?thesis
    by (simp only: reported_processRectRect)
qed

text \<open>Two unrotated rectangles of half-extents 2 by 1, centered at (0, 0) and (3, 1).\<close>

theorem processRectRect_axis_aligned_witness:
  "rotationRad \<lparr>center = (0, 0), rotationRad = 0, parent = 0, halfWidth = 2, halfHeight = 1\<rparr> = 0
   \<and> rotationRad \<lparr>center = (3, 1), rotationRad = 0, parent = 1, halfWidth = 2, halfHeight = 1\<rparr> = 0
   \<and> aabbOverlap
        (boundingBox \<lparr>center = (0, 0), rotationRad = 0, parent = 0, halfWidth = 2, halfHeight = 1\<rparr>)
        (boundingBox \<lparr>center = (3, 1), rotationRad = 0, parent = 1, halfWidth = 2, halfHeight = 1\<rparr>)
   \<and> collided (processRectRect (\<lambda>a b. center a)
        \<lparr>center = (0, 0), rotationRad = 0, parent = 0, halfWidth = 2, halfHeight = 1\<rparr>
        \<lparr>center = (3, 1), rotationRad = 0, parent = 1, halfWidth = 2, halfHeight = 1\<rparr>)"
  using processRectRect_axis_aligned [of
      "\<lparr>center = (0, 0), rotationRad = 0, parent = 0, halfWidth = 2, halfHeight = 1\<rparr>"
      "\<lparr>center = (3, 1), rotationRad = 0, parent = 1, halfWidth = 2, halfHeight = 1\<rparr>"
      "\<lambda>a b. center a"]
  by (simp add: aabbOverlap_def boundingBox_def)


section \<open>Properties of the solver\<close>

lemma inverseMass_static: "isStatic b \<Longrightarrow> inverseMass b = 0"
  by (simp add: inverseMass_def)

lemma vsub_vscale_0: "vsub v (vscale 0 n) = v"
  by (simp add: vsub_def vscale_def)

lemma vadd_vscale_0: "vadd v (vscale 0 n) = v"
  by (simp add: vadd_def vscale_def)

lemma dot_vsub_self: "dot (vsub v v) n = 0"
  by (simp add: dot_def vsub_def)

lemma resolveContact_frame:
  assumes "k \<noteq> bodyOf (object1 c)" and "k \<noteq> bodyOf (object2 c)"
  shows "resolveContact cfg c bodies k = bodies k"
  using assms by (simp add: resolveContact_def Let_def)

lemma resolveContact_isStatic:
  "isStatic (resolveContact cfg c bodies k) = isStatic (bodies k)"
  by (simp add: resolveContact_def Let_def)

lemma resolveContact_static_velocity:
  assumes "isStatic (bodies k)"
  shows "velocity (resolveContact cfg c bodies k) = velocity (bodies k)"
proof (cases "k = bodyOf (object1 c) \<or> k = bodyOf (object2 c)")
  case False
  then show ?thesis by (simp add: resolveContact_frame)
next
  case True
  from assms have w: "inverseMass (bodies k) = 0"
    by (rule inverseMass_static)
  from True show ?thesis
  proof
    assume k: "k = bodyOf (object1 c)"
    with w show ?thesis
      by (simp add: resolveContact_def Let_def vsub_vscale_0 vadd_vscale_0 dot_vsub_self)
  next
    assume k: "k = bodyOf (object2 c)"
    with w show ?thesis
      by (simp add: resolveContact_def Let_def vsub_vscale_0 vadd_vscale_0 dot_vsub_self)
  qed
qed

lemma solvePass_static:
  "isStatic (bodies k) \<Longrightarrow>
     isStatic (solvePass cfg cs bodies k)
     \<and> velocity (solvePass cfg cs bodies k) = velocity (bodies k)"
proof (induction cs arbitrary: bodies)
  case Nil
  then show ?case by simp
next
  case (Cons c cs)
  from Cons.prems have "isStatic (resolveContact cfg c bodies k)"
    by (simp add: resolveContact_isStatic)
  then have "isStatic (solvePass cfg cs (resolveContact cfg c bodies) k)
      \<and> velocity (solvePass cfg cs (resolveContact cfg c bodies) k)
          = velocity (resolveContact cfg c bodies k)"
    by (rule Cons.IH)
  with Cons.prems show ?case
    by (simp add: resolveContact_static_velocity)
qed

lemma iterate_static:
  "isStatic (bodies k) \<Longrightarrow>
     isStatic (iterate m cfg cs bodies k)
     \<and> velocity (iterate m cfg cs bodies k) = velocity (bodies k)"
proof (induction m arbitrary: bodies)
  case 0
  then show ?case by simp
next
  case (Suc m)
  from Suc.prems have "isStatic (solvePass cfg cs bodies k)
      \<and> velocity (solvePass cfg cs bodies k) = velocity (bodies k)"
    by (rule solvePass_static)
  then have st: "isStatic (solvePass cfg cs bodies k)"
    and v: "velocity (solvePass cfg cs bodies k) = velocity (bodies k)"
    by simp_all
  from st have "isStatic (iterate m cfg cs (solvePass cfg cs bodies) k)
      \<and> velocity (iterate m cfg cs (solvePass cfg cs bodies) k)
          = velocity (solvePass cfg cs bodies k)"
    by (rule Suc.IH)
  with v show ?case by simp
qed

lemma solvePass_frame:
  "\<forall>c \<in> set cs. k \<noteq> bodyOf (object1 c) \<and> k \<noteq> bodyOf (object2 c) \<Longrightarrow>
     solvePass cfg cs bodies k = bodies k"
  by (induction cs arbitrary: bodies) (simp_all add: resolveContact_frame)

lemma iterate_frame:
  "\<forall>c \<in> set cs. k \<noteq> bodyOf (object1 c) \<and> k \<noteq> bodyOf (object2 c) \<Longrightarrow>
     iterate m cfg cs bodies k = bodies k"
  by (induction m arbitrary: bodies) (simp_all add: solvePass_frame)

text \<open>
  Claim C7. A static body keeps its velocity through the whole resolution, whatever the
  contacts and the number of iterations: its inverse mass is zero, so every impulse
  leaves its velocity as it was. When all contacts are between a static body \<open>s\<close> and a
  body \<open>d\<close>, no body other than \<open>d\<close> changes its velocity.
\<close>

theorem solve_static_velocity_unchanged:
  assumes "isStatic (bodies s)"
  shows "velocity (solve cfg cs bodies s) = velocity (bodies s)
    \<and> (\<forall>k. (\<forall>c \<in> set cs. bodyOf (object1 c) \<in> {s, d} \<and> bodyOf (object2 c) \<in> {s, d})
          \<and> k \<noteq> d \<longrightarrow> velocity (solve cfg cs bodies k) = velocity (bodies k))"
proof (intro conjI allI impI)
  show s: "velocity (solve cfg cs bodies s) = velocity (bodies s)"
    using assms by (simp add: solve_def iterate_static)
  fix k
  assume h: "(\<forall>c \<in> set cs. bodyOf (object1 c) \<in> {s, d} \<and> bodyOf (object2 c) \<in> {s, d}) \<and> k \<noteq> d"
  show "velocity (solve cfg cs bodies k) = velocity (bodies k)"
  proof (cases "k = s")
    case True
    with s show ?thesis by simp
  next
    case False
    with h have "\<forall>c \<in> set cs. k \<noteq> bodyOf (object1 c) \<and> k \<noteq> bodyOf (object2 c)"
      by auto
    then show ?thesis
      by (simp add: solve_def iterate_frame)
  qed
qed


text \<open>
  The scenario of section 8 with the first body static: circles of radius 1 at (0, 0) and
  (3/2, 0), the second body moving at (-1, 0), one pass. The static body stays at rest;
  the moving body leaves with half its speed, the restitution being one half.
\<close>

theorem solve_static_velocity_unchanged_witness:
  "isStatic (((\<lambda>k. restingBody True (0, 0) (0, 0))(1 := restingBody False (3 / 2, 0) (- 1, 0)))
       (0 :: nat))
   \<and> velocity (solve \<lparr>combineRestitution = min, iterations = Suc 0, correctionFactor = 1 / 5,
                       maxCorrection = 1\<rparr>
         [\<lparr>object1 = unitCircle 0 (0, 0), object2 = unitCircle 1 (3 / 2, 0), point = (3 / 4, 0),
           normal = (1, 0), depth = 1 / 2\<rparr>]
         ((\<lambda>k. restingBody True (0, 0) (0, 0))(1 := restingBody False (3 / 2, 0) (- 1, 0))) 0) = (0, 0)
   \<and> velocity (solve \<lparr>combineRestitution = min, iterations = Suc 0, correctionFactor = 1 / 5,
                       maxCorrection = 1\<rparr>
         [\<lparr>object1 = unitCircle 0 (0, 0), object2 = unitCircle 1 (3 / 2, 0), point = (3 / 4, 0),
           normal = (1, 0), depth = 1 / 2\<rparr>]
         ((\<lambda>k. restingBody True (0, 0) (0, 0))(1 := restingBody False (3 / 2, 0) (- 1, 0))) 1)
       = (1 / 2, 0)"
  using solve_static_velocity_unchanged [of
      "(\<lambda>k. restingBody True (0, 0) (0, 0))(1 := restingBody False (3 / 2, 0) (- 1, 0))" 0
      "\<lparr>combineRestitution = min, iterations = Suc 0, correctionFactor = 1 / 5, maxCorrection = 1\<rparr>"
      "[\<lparr>object1 = unitCircle 0 (0, 0), object2 = unitCircle 1 (3 / 2, 0), point = (3 / 4, 0),
           normal = (1, 0), depth = 1 / 2\<rparr>]" 1]
  by (simp add: solve_def resolveContact_def restingBody_def unitCircle_def inverseMass_def
      dot_def vsub_def vadd_def vscale_def Let_def)

end
